theory Spec2Isabelle
  imports Complex_Main
begin

chapter \<open>The embedding\<close>

section \<open>Dynamically typed values and the operator table\<close>

text \<open>
  Metric values and thresholds flow through \<open>evaluate_condition\<close> untyped: numbers,
  strings, lists and tuples. Numbers (Python int, float, bool) are idealised as rationals.
  A comparison that Python rejects with \<open>TypeError\<close> is the value \<open>Inl TypeError\<close>.
\<close>

datatype pyval = PNone | PNum rat | PStr string | PList "pyval list" | PTuple "pyval list"

datatype py_error = TypeError | ValueError | AttributeError

text \<open>Sequencing of steps that may raise.\<close>

definition bind_sum :: "'e + 'a \<Rightarrow> ('a \<Rightarrow> 'e + 'b) \<Rightarrow> 'e + 'b" where
  "bind_sum m f = (case m of Inl e \<Rightarrow> Inl e | Inr x \<Rightarrow> f x)"

datatype cmpop = Lt | Le | Gt | Ge

fun num_cmp :: "cmpop \<Rightarrow> rat \<Rightarrow> rat \<Rightarrow> bool" where
  "num_cmp Lt a b = (a < b)"
| "num_cmp Le a b = (a \<le> b)"
| "num_cmp Gt a b = (a > b)"
| "num_cmp Ge a b = (a \<ge> b)"

text \<open>Python orders strings lexicographically by code point.\<close>

fun str_lt :: "string \<Rightarrow> string \<Rightarrow> bool" where
  "str_lt [] [] = False"
| "str_lt [] (y # ys) = True"
| "str_lt (x # xs) [] = False"
| "str_lt (x # xs) (y # ys) =
     (if x = y then str_lt xs ys else (of_char x :: nat) < of_char y)"

fun str_cmp :: "cmpop \<Rightarrow> string \<Rightarrow> string \<Rightarrow> bool" where
  "str_cmp Lt a b = str_lt a b"
| "str_cmp Le a b = (str_lt a b \<or> a = b)"
| "str_cmp Gt a b = str_lt b a"
| "str_cmp Ge a b = (str_lt b a \<or> a = b)"

text \<open>
  Lists and tuples compare at the first pair of unequal items, with the operator applied
  to that pair; when one sequence is a prefix of the other the lengths decide.
\<close>

fun len_cmp :: "cmpop \<Rightarrow> nat \<Rightarrow> nat \<Rightarrow> bool" where
  "len_cmp Lt a b = (a < b)"
| "len_cmp Le a b = (a \<le> b)"
| "len_cmp Gt a b = (a > b)"
| "len_cmp Ge a b = (a \<ge> b)"

fun py_richcmp :: "cmpop \<Rightarrow> pyval \<Rightarrow> pyval \<Rightarrow> py_error + bool"
  and seq_richcmp :: "cmpop \<Rightarrow> pyval list \<Rightarrow> pyval list \<Rightarrow> py_error + bool" where
  "py_richcmp c (PNum a) (PNum b) = Inr (num_cmp c a b)"
| "py_richcmp c (PStr a) (PStr b) = Inr (str_cmp c a b)"
| "py_richcmp c (PList xs) (PList ys) = seq_richcmp c xs ys"
| "py_richcmp c (PTuple xs) (PTuple ys) = seq_richcmp c xs ys"
| "py_richcmp c _ _ = Inl TypeError"
| "seq_richcmp c (x # xs) (y # ys) =
     (if x = y then seq_richcmp c xs ys else py_richcmp c x y)"
| "seq_richcmp c xs ys = Inr (len_cmp c (length xs) (length ys))"

text \<open>\<open>value in threshold\<close> on a list or tuple: some item equals the value.\<close>

definition py_in :: "pyval \<Rightarrow> pyval list \<Rightarrow> bool" where
  "py_in v xs = list_ex (\<lambda>x. x = v) xs"

text \<open>The body of \<open>evaluate_condition\<close> inside its \<open>try\<close>.\<close>

definition evaluate_condition_body :: "pyval \<Rightarrow> string \<Rightarrow> pyval \<Rightarrow> py_error + bool" where
  "evaluate_condition_body v oper threshold =
     (if oper = ''>'' then py_richcmp Gt v threshold
      else if oper = ''<'' then py_richcmp Lt v threshold
      else if oper = ''>='' then py_richcmp Ge v threshold
      else if oper = ''<='' then py_richcmp Le v threshold
      else if oper = ''=='' then Inr (v = threshold)
      else if oper = ''!='' then Inr (v \<noteq> threshold)
      else if oper = ''in'' then
        (case threshold of PList xs \<Rightarrow> Inr (py_in v xs)
                         | PTuple xs \<Rightarrow> Inr (py_in v xs)
                         | _ \<Rightarrow> Inr False)
      else if oper = ''not_in'' then
        (case threshold of PList xs \<Rightarrow> Inr (\<not> py_in v xs)
                         | PTuple xs \<Rightarrow> Inr (\<not> py_in v xs)
                         | _ \<Rightarrow> Inr True)
      else Inr False)"

text \<open>\<open>except Exception: return False\<close>.\<close>

definition evaluate_condition :: "pyval \<Rightarrow> string \<Rightarrow> pyval \<Rightarrow> bool" where
  "evaluate_condition v oper threshold =
     (case evaluate_condition_body v oper threshold of Inl _ \<Rightarrow> False | Inr b \<Rightarrow> b)"


section \<open>Alerts, rules and the task queue\<close>

text \<open>
  Timestamps (\<open>datetime.utcnow()\<close>) are integers counting microseconds; every function
  that reads the clock takes the reading as \<open>now\<close>. Primary keys and alert ids
  (\<open>uuid.uuid4()\<close>) are drawn from a counter of the state, so that each is fresh.
  Saving a document is assumed to succeed.
\<close>

type_synonym datetime = int

definition timedelta_minutes :: "int \<Rightarrow> int" where
  "timedelta_minutes m = m * 60000000"

definition timedelta_hours :: "int \<Rightarrow> int" where
  "timedelta_hours h = h * 3600000000"


record channel =
  ch_channel_type :: "string option"
  ch_config :: "(string \<times> string) list"
  ch_enabled :: "bool option"


record alert =
  a_id :: nat
  a_project_id :: string
  a_model_id :: "string option"
  a_alert_id :: nat
  a_title :: string
  a_description :: string
  a_alert_type :: string
  a_severity :: string
  a_status :: string
  a_metric_value :: pyval
  a_threshold :: pyval
  a_rule_name :: "string option"
  a_created_at :: datetime
  a_updated_at :: datetime
  a_is_suppressed :: bool
  a_source :: "string option"

record alert_notification =
  n_id :: nat
  n_alert_id :: nat
  n_channel_type :: "string option"
  n_recipient :: string
  n_status :: string
  n_sent_at :: "datetime option"
  n_error_message :: "string option"
  n_retry_count :: int
  n_max_retries :: int

record trust_score =
  ts_id :: nat
  ts_project_id :: string
  ts_model_id :: "string option"
  ts_fairness_score :: rat
  ts_robustness_score :: rat
  ts_stability_score :: rat
  ts_explainability_score :: rat
  ts_score :: rat
  ts_weights :: "(string \<times> rat) list"
  ts_trend_direction :: string
  ts_trend_percentage :: rat
  ts_threshold :: rat
  ts_alert_triggered :: bool
  ts_timestamp :: datetime

text \<open>A queued task with its countdown in seconds (\<open>delay\<close> is countdown 0).\<close>

datatype task =
  ProcessAlertNotifications nat
| SendAlertNotification nat channel
| TriggerTrustScoreAlert nat

record system =
  alerts :: "alert list"
  notifications :: "alert_notification list"
  trust_scores :: "trust_score list"
  queue :: "(nat \<times> task) list"
  next_uuid :: nat

definition delay :: "task \<Rightarrow> system \<Rightarrow> system" where
  "delay t s = s\<lparr>queue := queue s @ [(0, t)]\<rparr>"

definition apply_async :: "task \<Rightarrow> nat \<Rightarrow> system \<Rightarrow> system" where
  "apply_async t countdown s = s\<lparr>queue := queue s @ [(countdown, t)]\<rparr>"

text \<open>\<open>save()\<close>: a document whose primary key is stored is replaced, a new one is added.\<close>

definition save_alert :: "alert \<Rightarrow> system \<Rightarrow> system" where
  "save_alert a s =
     (if a_id a \<in> set (map a_id (alerts s))
      then s\<lparr>alerts := map (\<lambda>x. if a_id x = a_id a then a else x) (alerts s)\<rparr>
      else s\<lparr>alerts := alerts s @ [a]\<rparr>)"








section \<open>The alert rule engine\<close>












section \<open>The trust-score alert\<close>

definition get_trust_score :: "nat \<Rightarrow> system \<Rightarrow> trust_score option" where
  "get_trust_score i s = find (\<lambda>t. ts_id t = i) (trust_scores s)"

definition trigger_trust_score_alert ::
  "(string \<Rightarrow> pyval \<Rightarrow> string) \<Rightarrow> datetime \<Rightarrow> nat \<Rightarrow> system \<Rightarrow> system" where
  "trigger_trust_score_alert fmt now trust_score_id s =
     (case get_trust_score trust_score_id s of
        None \<Rightarrow> s
      | Some trust_score \<Rightarrow>
          if \<not> ts_alert_triggered trust_score then s
          else
            let alert =
              \<lparr>a_id = Suc (next_uuid s),
               a_project_id = ts_project_id trust_score,
               a_model_id = ts_model_id trust_score,
               a_alert_id = next_uuid s,
               a_title = ''Low Trust Score Alert'',
               a_description = ''Trust score has dropped to '' @
                 fmt ''.3f'' (PNum (ts_score trust_score)) @ '', below threshold of '' @
                 fmt ''.3f'' (PNum (ts_threshold trust_score)),
               a_alert_type = ''trust_score'',
               a_severity = (if ts_score trust_score < 1 / 2 then ''high'' else ''medium''),
               a_status = ''active'',
               a_metric_value = PNum (ts_score trust_score),
               a_threshold = PNum (ts_threshold trust_score),
               a_rule_name = None,
               a_created_at = now,
               a_updated_at = now,
               a_is_suppressed = False,
               a_source = Some ''trust_score_evaluation''\<rparr>
            in delay (ProcessAlertNotifications (a_id alert))
                 (save_alert alert (s\<lparr>next_uuid := next_uuid s + 2\<rparr>)))"


section \<open>Well-formed states and sample data\<close>

text \<open>Every stored alert's primary key was drawn from the counter already.\<close>

definition fresh_ids :: "system \<Rightarrow> bool" where
  "fresh_ids s = list_all (\<lambda>a. a_id a < next_uuid s) (alerts s)"

text \<open>A trust score below its threshold, in a store with no alert yet.\<close>

definition ts0 :: trust_score where
  "ts0 = \<lparr>ts_id = 7, ts_project_id = ''p'', ts_model_id = Some ''m'',
          ts_fairness_score = 2 / 5, ts_robustness_score = 2 / 5, ts_stability_score = 2 / 5,
          ts_explainability_score = 2 / 5, ts_score = 2 / 5,
          ts_weights = [], ts_trend_direction = ''stable'', ts_trend_percentage = 0,
          ts_threshold = 7 / 10, ts_alert_triggered = True, ts_timestamp = 0\<rparr>"

definition sys0 :: system where
  "sys0 = \<lparr>alerts = [], notifications = [], trust_scores = [ts0], queue = [], next_uuid = 100\<rparr>"






text \<open>A formatter for the sample runs; no property depends on the text it gives.\<close>

definition fmt0 :: "string \<Rightarrow> pyval \<Rightarrow> string" where
  "fmt0 spec v = []"

text \<open>The active alerts of a (project, model, alert type, rule name) tuple.\<close>

definition active_alerts_of ::
  "string \<Rightarrow> string option \<Rightarrow> string \<Rightarrow> string option \<Rightarrow> system \<Rightarrow> alert list" where
  "active_alerts_of project model atype rname s =
     filter (\<lambda>a. a_project_id a = project \<and> a_model_id a = model \<and> a_alert_type a = atype \<and>
                 a_rule_name a = rname \<and> a_status a = ''active'') (alerts s)"

section \<open>Double precision arithmetic\<close>

text \<open>
  Python's floats are IEEE 754 doubles. A finite double is the rational number it
  denotes; an arithmetic operation gives the exact result rounded to the nearest double,
  ties to even, and a decimal literal denotes the double nearest to it. Subnormal
  results are rounded as such; overflow to infinity is left out (scores and percentages
  are far from it).
\<close>

fun bitlength :: "nat \<Rightarrow> nat" where
  "bitlength n = (if n = 0 then 0 else Suc (bitlength (n div 2)))"

definition pow2 :: "int \<Rightarrow> rat" where
  "pow2 e = (if 0 \<le> e then 2 ^ nat e else 1 / 2 ^ nat (- e))"

text \<open>For \<open>x > 0\<close>, the exponent \<open>e\<close> with \<open>2 ^ e \<le> x < 2 ^ (e + 1)\<close>.\<close>

definition binary_exponent :: "rat \<Rightarrow> int" where
  "binary_exponent x =
     (if 1 \<le> x then int (bitlength (nat \<lfloor>x\<rfloor>)) - 1
      else let k = int (bitlength (nat \<lfloor>1 / x\<rfloor>)) - 1
           in if x = pow2 (- k) then - k else - k - 1)"

definition round_half_even :: "rat \<Rightarrow> int" where
  "round_half_even q =
     (let f = \<lfloor>q\<rfloor>; r = q - of_int f
      in if r < 1 / 2 then f else if r > 1 / 2 then f + 1 else if even f then f else f + 1)"

text \<open>A double has 53 significant bits; below \<open>2 ^ - 1022\<close> the spacing stays \<open>2 ^ - 1074\<close>.\<close>

definition round_double :: "rat \<Rightarrow> rat" where
  "round_double x =
     (if x = 0 then 0
      else let e = max (binary_exponent \<bar>x\<bar>) (- 1022); ulp = pow2 (e - 52)
           in of_int (round_half_even (x / ulp)) * ulp)"

definition py_float :: "rat \<Rightarrow> rat" where
  "py_float literal = round_double literal"

definition f_add :: "rat \<Rightarrow> rat \<Rightarrow> rat" where
  "f_add a b = round_double (a + b)"

definition f_sub :: "rat \<Rightarrow> rat \<Rightarrow> rat" where
  "f_sub a b = round_double (a - b)"

definition f_mul :: "rat \<Rightarrow> rat \<Rightarrow> rat" where
  "f_mul a b = round_double (a * b)"

definition f_div :: "rat \<Rightarrow> rat \<Rightarrow> rat" where
  "f_div a b = round_double (a / b)"

section \<open>The trust score aggregator\<close>

text \<open>
  \<open>calculate_trust_score\<close>. The four queries for the latest completed evaluations are
  inputs: the overall score of each evaluation found. Scores are doubles.
\<close>

definition weights_get :: "(string \<times> rat) list \<Rightarrow> string \<Rightarrow> rat \<Rightarrow> rat" where
  "weights_get weights k d = (case map_of weights k of None \<Rightarrow> d | Some v \<Rightarrow> v)"

definition default_weights :: "(string \<times> rat) list" where
  "default_weights =
     [(''fairness'', py_float (3 / 10)), (''robustness'', py_float (1 / 4)),
      (''stability'', py_float (1 / 4)), (''explainability'', py_float (1 / 5))]"

text \<open>
  \<open>ProjectConfiguration.objects(project_id=project_id, is_active=True)\<close>.
  \<open>ProjectConfiguration\<close> is a Django model, and the manager \<open>objects\<close> of a Django
  model is not callable (the model's own methods use \<open>objects.filter\<close>): the call raises
  \<open>TypeError\<close>, whatever the project.
\<close>

definition project_configuration_objects ::
  "string \<Rightarrow> py_error + ((string \<times> rat) list \<times> rat) option" where
  "project_configuration_objects project_id = Inl TypeError"

text \<open>\<open>TrustScore.objects(project_id, model_id).order_by('-timestamp').skip(1).first()\<close>\<close>

definition order_by_timestamp_desc :: "trust_score list \<Rightarrow> trust_score list" where
  "order_by_timestamp_desc xs = rev (sort_key ts_timestamp xs)"

definition previous_trust_score :: "string \<Rightarrow> string option \<Rightarrow> system \<Rightarrow> trust_score option" where
  "previous_trust_score project_id model_id s =
     (case drop 1 (order_by_timestamp_desc
                     (filter (\<lambda>t. ts_project_id t = project_id \<and> ts_model_id t = model_id)
                        (trust_scores s))) of
        [] \<Rightarrow> None
      | t # _ \<Rightarrow> Some t)"

text \<open>The trend of \<open>overall_score\<close> against the score of \<open>previous_score\<close>, when there is one.\<close>

definition calculate_trend :: "rat option \<Rightarrow> rat \<Rightarrow> string \<times> rat" where
  "calculate_trend previous_score overall_score =
     (case previous_score of
        None \<Rightarrow> (''stable'', 0)
      | Some prev \<Rightarrow>
          let score_change = f_sub overall_score prev;
              trend_percentage = (if prev > 0 then f_mul (f_div score_change prev) 100 else 0)
          in if \<bar>trend_percentage\<bar> < 5 then (''stable'', trend_percentage)
             else if trend_percentage > 0 then (''improving'', trend_percentage)
             else (''declining'', trend_percentage))"

text \<open>The validation of \<open>TrustScore.save()\<close>: the five scores lie in [0, 1].\<close>

definition unit_range :: "rat \<Rightarrow> bool" where
  "unit_range x = (0 \<le> x \<and> x \<le> 1)"

definition valid_trust_score :: "trust_score \<Rightarrow> bool" where
  "valid_trust_score t =
     (unit_range (ts_fairness_score t) \<and> unit_range (ts_robustness_score t) \<and>
      unit_range (ts_stability_score t) \<and> unit_range (ts_explainability_score t) \<and>
      unit_range (ts_score t))"

text \<open>
  What the function does once the configuration lookup has returned: the weighted sum,
  the trend, the new record and the signal to the alerting path.
\<close>

definition aggregate_trust_score ::
  "datetime \<Rightarrow> string \<Rightarrow> string option \<Rightarrow> rat option \<Rightarrow> rat option \<Rightarrow> rat option \<Rightarrow> rat option \<Rightarrow>
   ((string \<times> rat) list \<times> rat) option \<Rightarrow> system \<Rightarrow> system" where
  "aggregate_trust_score now project_id model_id latest_fairness latest_drift latest_robustness
     latest_explainability config s =
     (let (weights, threshold) =
            (case config of Some c \<Rightarrow> c | None \<Rightarrow> (default_weights, py_float (7 / 10)));
          fairness_score = (case latest_fairness of Some v \<Rightarrow> v | None \<Rightarrow> py_float (1 / 2));
          robustness_score = (case latest_robustness of Some v \<Rightarrow> v | None \<Rightarrow> py_float (1 / 2));
          stability_score =
            f_sub 1 (case latest_drift of Some v \<Rightarrow> v | None \<Rightarrow> py_float (1 / 2));
          explainability_score =
            (case latest_explainability of Some v \<Rightarrow> v | None \<Rightarrow> py_float (1 / 2));
          overall_score =
            f_add (f_add (f_add
              (f_mul (weights_get weights ''fairness'' (py_float (3 / 10))) fairness_score)
              (f_mul (weights_get weights ''robustness'' (py_float (1 / 4))) robustness_score))
              (f_mul (weights_get weights ''stability'' (py_float (1 / 4))) stability_score))
              (f_mul (weights_get weights ''explainability'' (py_float (1 / 5)))
                 explainability_score);
          previous_score = previous_trust_score project_id model_id s;
          (trend_direction, trend_percentage) =
            calculate_trend (map_option ts_score previous_score) overall_score;
          trust_score =
            \<lparr>ts_id = next_uuid s, ts_project_id = project_id, ts_model_id = model_id,
             ts_fairness_score = fairness_score, ts_robustness_score = robustness_score,
             ts_stability_score = stability_score,
             ts_explainability_score = explainability_score, ts_score = overall_score,
             ts_weights = weights, ts_trend_direction = trend_direction,
             ts_trend_percentage = trend_percentage, ts_threshold = threshold,
             ts_alert_triggered = (overall_score < threshold), ts_timestamp = now\<rparr>
      in if \<not> valid_trust_score trust_score then s
         else
           let s1 = s\<lparr>trust_scores := trust_scores s @ [trust_score],
                      next_uuid := next_uuid s + 1\<rparr>
           in if ts_alert_triggered trust_score
              then delay (TriggerTrustScoreAlert (ts_id trust_score)) s1
              else s1)"

text \<open>The body of the \<open>try\<close>: the configuration lookup, then the rest.\<close>

definition calculate_trust_score_body ::
  "datetime \<Rightarrow> string \<Rightarrow> string option \<Rightarrow> rat option \<Rightarrow> rat option \<Rightarrow> rat option \<Rightarrow> rat option \<Rightarrow>
   system \<Rightarrow> py_error + system" where
  "calculate_trust_score_body now project_id model_id latest_fairness latest_drift
     latest_robustness latest_explainability s =
     bind_sum (project_configuration_objects project_id)
       (\<lambda>config. Inr (aggregate_trust_score now project_id model_id latest_fairness
                        latest_drift latest_robustness latest_explainability config s))"

text \<open>\<open>except Exception\<close>: the error is logged, and the state is as the \<open>try\<close> left it.\<close>

definition calculate_trust_score ::
  "datetime \<Rightarrow> string \<Rightarrow> string option \<Rightarrow> rat option \<Rightarrow> rat option \<Rightarrow> rat option \<Rightarrow> rat option \<Rightarrow>
   system \<Rightarrow> system" where
  "calculate_trust_score now project_id model_id latest_fairness latest_drift latest_robustness
     latest_explainability s =
     (case calculate_trust_score_body now project_id model_id latest_fairness latest_drift
             latest_robustness latest_explainability s of
        Inl e \<Rightarrow> s
      | Inr s1 \<Rightarrow> s1)"

text \<open>A scope with one earlier trust score, of 0.70.\<close>

definition earlier_score :: "nat \<Rightarrow> rat \<Rightarrow> datetime \<Rightarrow> trust_score" where
  "earlier_score i v t =
     \<lparr>ts_id = i, ts_project_id = ''p'', ts_model_id = Some ''m'',
      ts_fairness_score = v, ts_robustness_score = v, ts_stability_score = v,
      ts_explainability_score = v, ts_score = v, ts_weights = default_weights,
      ts_trend_direction = ''stable'', ts_trend_percentage = 0, ts_threshold = py_float (7 / 10),
      ts_alert_triggered = (v < py_float (7 / 10)), ts_timestamp = t\<rparr>"

definition sys_one_score :: system where
  "sys_one_score =
     \<lparr>alerts = [], notifications = [],
      trust_scores = [earlier_score 1 (py_float (7 / 10)) 10],
      queue = [], next_uuid = 100\<rparr>"

section \<open>The escalation sweep\<close>

definition should_escalate_alert :: "datetime \<Rightarrow> alert \<Rightarrow> bool" where
  "should_escalate_alert now alert =
     (if a_severity alert = ''critical''
      then now > a_created_at alert + timedelta_minutes 30
      else if a_severity alert = ''high''
      then now > a_created_at alert + timedelta_hours 1
      else False)"

definition escalation_note :: string where
  "escalation_note =
     [CHR 0x0A, CHR 0x0A] @ ''**This alert has been escalated due to prolonged inactivity.**''"

definition escalated :: "alert \<Rightarrow> alert" where
  "escalated alert =
     alert\<lparr>a_severity := ''critical'',
           a_title := ''[ESCALATED] '' @ a_title alert,
           a_description := a_description alert @ escalation_note\<rparr>"

definition escalate_alert :: "alert \<Rightarrow> system \<Rightarrow> system" where
  "escalate_alert alert s =
     (if a_severity alert = ''high''
      then delay (ProcessAlertNotifications (a_id alert)) (save_alert (escalated alert) s)
      else s)"

text \<open>The query of \<open>check_alert_escalations\<close> and its loop over the alerts found.\<close>

definition sweep_selects :: "datetime \<Rightarrow> alert \<Rightarrow> bool" where
  "sweep_selects now a =
     (a_status a = ''active'' \<and> \<not> a_is_suppressed a \<and>
      a_created_at a < now - timedelta_minutes 30)"

fun escalate_each :: "datetime \<Rightarrow> alert list \<Rightarrow> system \<Rightarrow> system" where
  "escalate_each now [] s = s"
| "escalate_each now (alert # active_alerts) s =
     escalate_each now active_alerts
       (if should_escalate_alert now alert then escalate_alert alert s else s)"

definition check_alert_escalations :: "datetime \<Rightarrow> system \<Rightarrow> system" where
  "check_alert_escalations now s = escalate_each now (filter (sweep_selects now) (alerts s)) s"

text \<open>Whether the sweep at \<open>now\<close> rewrites the alert.\<close>

definition sweep_escalates :: "datetime \<Rightarrow> alert \<Rightarrow> bool" where
  "sweep_escalates now a =
     (sweep_selects now a \<and> a_severity a = ''high'' \<and>
      now > a_created_at a + timedelta_minutes 60)"

text \<open>A high alert created 61 minutes and a critical alert created 31 minutes before the sweep.\<close>

definition old_alert :: "nat \<Rightarrow> string \<Rightarrow> datetime \<Rightarrow> alert" where
  "old_alert i sev t =
     \<lparr>a_id = i, a_project_id = ''p'', a_model_id = Some ''m'', a_alert_id = i + 50,
      a_title = ''Drift Alert: r'', a_description = ''drift_score is high'',
      a_alert_type = ''drift'', a_severity = sev, a_status = ''active'',
      a_metric_value = PNum (3 / 5), a_threshold = PNum (1 / 2),
      a_rule_name = Some ''r'', a_created_at = t, a_updated_at = t,
      a_is_suppressed = False, a_source = Some ''alert_rule''\<rparr>"

definition sys_stale :: system where
  "sys_stale =
     \<lparr>alerts = [old_alert 1 ''high'' 0, old_alert 2 ''critical'' (timedelta_minutes 30)],
      notifications = [], trust_scores = [], queue = [], next_uuid = 100\<rparr>"

text \<open>Due for escalation and of severity \<open>high\<close>: what \<open>escalate_alert\<close> acts on.\<close>

definition esc_now :: "datetime \<Rightarrow> alert \<Rightarrow> bool" where
  "esc_now now a = (should_escalate_alert now a \<and> a_severity a = ''high'')"

section \<open>The notification dispatcher\<close>

text \<open>
  The channel senders. What lies outside the program (the mail server, the HTTP
  endpoints) is the parameter \<open>deliver\<close>: whether the external call for a channel type
  succeeds. An exception inside a sender is caught there and counts as failure.
\<close>

definition send_email_notification ::
  "(string \<Rightarrow> alert \<Rightarrow> (string \<times> string) list \<Rightarrow> bool) \<Rightarrow> alert \<Rightarrow> (string \<times> string) list \<Rightarrow> bool" where
  "send_email_notification deliver alert config =
     (case map_of config ''recipient'' of
        None \<Rightarrow> False
      | Some recipient \<Rightarrow> if recipient = [] then False else deliver ''email'' alert config)"

definition send_webhook_notification ::
  "(string \<Rightarrow> alert \<Rightarrow> (string \<times> string) list \<Rightarrow> bool) \<Rightarrow> alert \<Rightarrow> (string \<times> string) list \<Rightarrow> bool" where
  "send_webhook_notification deliver alert config =
     (case map_of config ''url'' of
        None \<Rightarrow> False
      | Some url \<Rightarrow> if url = [] then False else deliver ''webhook'' alert config)"

definition send_slack_notification ::
  "(string \<Rightarrow> alert \<Rightarrow> (string \<times> string) list \<Rightarrow> bool) \<Rightarrow> alert \<Rightarrow> (string \<times> string) list \<Rightarrow> bool" where
  "send_slack_notification deliver alert config =
     (case map_of config ''webhook_url'' of
        None \<Rightarrow> False
      | Some url \<Rightarrow> if url = [] then False else deliver ''slack'' alert config)"

definition send_teams_notification ::
  "(string \<Rightarrow> alert \<Rightarrow> (string \<times> string) list \<Rightarrow> bool) \<Rightarrow> alert \<Rightarrow> (string \<times> string) list \<Rightarrow> bool" where
  "send_teams_notification deliver alert config =
     (case map_of config ''webhook_url'' of
        None \<Rightarrow> False
      | Some url \<Rightarrow> if url = [] then False else deliver ''teams'' alert config)"

definition send_in_app_notification :: "alert \<Rightarrow> (string \<times> string) list \<Rightarrow> bool" where
  "send_in_app_notification alert config = True"

definition save_notification :: "alert_notification \<Rightarrow> system \<Rightarrow> system" where
  "save_notification n s =
     (if n_id n \<in> set (map n_id (notifications s))
      then s\<lparr>notifications := map (\<lambda>x. if n_id x = n_id n then n else x) (notifications s)\<rparr>
      else s\<lparr>notifications := notifications s @ [n]\<rparr>)"

text \<open>
  An exception that leaves the task body ends in \<open>raise self.retry(exc=exc, countdown=60)\<close>:
  the value \<open>Inl (TaskRetry 60)\<close>. It is raised when the alert is not stored and when the
  first \<open>notification.save()\<close> rejects the channel type.
\<close>

datatype task_error = TaskRetry nat

definition notification_channel_types :: "string list" where
  "notification_channel_types = [''email'', ''webhook'', ''slack'', ''teams'', ''in_app'']"

definition send_alert_notification ::
  "(string \<Rightarrow> alert \<Rightarrow> (string \<times> string) list \<Rightarrow> bool) \<Rightarrow> datetime \<Rightarrow> nat \<Rightarrow> channel \<Rightarrow> system \<Rightarrow>
   task_error + system" where
  "send_alert_notification deliver now alert_id channel s =
     (case find (\<lambda>a. a_id a = alert_id) (alerts s) of
        None \<Rightarrow> Inl (TaskRetry 60)
      | Some alert \<Rightarrow>
          (case ch_channel_type channel of
             None \<Rightarrow> Inl (TaskRetry 60)
           | Some channel_type \<Rightarrow>
               if channel_type \<notin> set notification_channel_types then Inl (TaskRetry 60)
               else
                 let config = ch_config channel;
                     notification =
                       \<lparr>n_id = next_uuid s, n_alert_id = alert_id,
                        n_channel_type = Some channel_type,
                        n_recipient = (case map_of config ''recipient'' of
                                         None \<Rightarrow> [] | Some r \<Rightarrow> r),
                        n_status = ''pending'', n_sent_at = None, n_error_message = None,
                        n_retry_count = 0, n_max_retries = 3\<rparr>;
                     s1 = save_notification notification (s\<lparr>next_uuid := next_uuid s + 1\<rparr>);
                     success =
                       (if channel_type = ''email'' then send_email_notification deliver alert config
                        else if channel_type = ''webhook'' then send_webhook_notification deliver alert config
                        else if channel_type = ''slack'' then send_slack_notification deliver alert config
                        else if channel_type = ''teams'' then send_teams_notification deliver alert config
                        else if channel_type = ''in_app'' then send_in_app_notification alert config
                        else False)
                 in if success
                    then Inr (save_notification
                                (notification\<lparr>n_status := ''sent'', n_sent_at := Some now\<rparr>) s1)
                    else
                      let failed = notification\<lparr>n_status := ''failed'',
                                     n_error_message := Some ''Failed to send notification''\<rparr>
                      in if n_retry_count failed < n_max_retries failed
                         then
                           let retried = failed\<lparr>n_retry_count := n_retry_count failed + 1,
                                                n_status := ''retry''\<rparr>;
                               countdown = 60 * 2 ^ nat (n_retry_count retried)
                           in Inr (save_notification retried
                                     (apply_async (SendAlertNotification alert_id channel)
                                        countdown s1))
                         else Inr (save_notification failed s1)))"

text \<open>
  The worker, as far as redelivery goes: it takes the task at the head of the queue and,
  when that is a notification delivery, runs it. \<open>redeliveries n\<close> does so \<open>n\<close> times, each
  of them failing over to the next; an exception or a queue without a delivery at its head
  ends the run.
\<close>

definition run_head ::
  "(string \<Rightarrow> alert \<Rightarrow> (string \<times> string) list \<Rightarrow> bool) \<Rightarrow> datetime \<Rightarrow> system \<Rightarrow> task_error + system" where
  "run_head deliver now s =
     (case queue s of
        (countdown, SendAlertNotification alert_id channel) # rest \<Rightarrow>
          send_alert_notification deliver now alert_id channel (s\<lparr>queue := rest\<rparr>)
      | _ \<Rightarrow> Inr s)"

fun redeliveries ::
  "(string \<Rightarrow> alert \<Rightarrow> (string \<times> string) list \<Rightarrow> bool) \<Rightarrow> datetime \<Rightarrow> nat \<Rightarrow> system \<Rightarrow> task_error + system" where
  "redeliveries deliver now 0 s = Inr s"
| "redeliveries deliver now (Suc n) s =
     (case run_head deliver now s of Inl e \<Rightarrow> Inl e | Inr s1 \<Rightarrow> redeliveries deliver now n s1)"

text \<open>An e-mail channel with no recipient configured: every delivery fails.\<close>

definition dead_channel :: channel where
  "dead_channel = \<lparr>ch_channel_type = Some ''email'', ch_config = [], ch_enabled = Some True\<rparr>"

definition sys_notify :: system where
  "sys_notify =
     \<lparr>alerts = [\<lparr>a_id = 3, a_project_id = ''p'', a_model_id = Some ''m'', a_alert_id = 2,
                 a_title = ''Drift Alert: r'', a_description = ''drift_score is high'',
                 a_alert_type = ''drift'', a_severity = ''high'', a_status = ''active'',
                 a_metric_value = PNum (3 / 5), a_threshold = PNum (1 / 2),
                 a_rule_name = Some ''r'', a_created_at = 0, a_updated_at = 0,
                 a_is_suppressed = False, a_source = Some ''alert_rule''\<rparr>],
      notifications = [], trust_scores = [],
      queue = [(0, SendAlertNotification 3 dead_channel)], next_uuid = 100\<rparr>"

text \<open>The record each failed attempt on the channel without recipient leaves.\<close>

definition retry_record :: "nat \<Rightarrow> alert_notification" where
  "retry_record i =
     \<lparr>n_id = i, n_alert_id = 3, n_channel_type = Some ''email'',
      n_recipient = [], n_status = ''retry'', n_sent_at = None,
      n_error_message = Some ''Failed to send notification'',
      n_retry_count = 1, n_max_retries = 3\<rparr>"

section \<open>The fairness evaluator\<close>

text \<open>
  \<open>calculate_fairness_metrics\<close>. A prediction carries its prediction, its true label
  and its feature map. The data frame is the list of its rows, a row giving the cell of
  each column (\<open>PNone\<close> for a missing value). The \<open>features\<close> column, which holds the
  feature map itself, is read only after a protected attribute of that name has
  overwritten it, so its first content is left out. Rates and scores are rationals.
\<close>

record prediction =
  pr_prediction :: pyval
  pr_true_label :: pyval
  pr_features :: "(string \<times> pyval) list"

type_synonym row = "string \<Rightarrow> pyval"

record fairness_results =
  demographic_parity :: "(string \<times> rat) list"
  equal_opportunity :: "(string \<times> rat) list"
  disparate_impact :: "(string \<times> rat) list"
  equalized_odds :: "(string \<times> rat) list"
  overall_score :: rat

definition initial_results :: fairness_results where
  "initial_results =
     \<lparr>demographic_parity = [], equal_opportunity = [], disparate_impact = [],
      equalized_odds = [], overall_score = 1 / 2\<rparr>"

definition features_get :: "(string \<times> pyval) list \<Rightarrow> string \<Rightarrow> pyval" where
  "features_get features k = (case map_of features k of None \<Rightarrow> PNone | Some v \<Rightarrow> v)"

definition make_row :: "string list \<Rightarrow> prediction \<Rightarrow> row" where
  "make_row protected_attributes pred =
     foldl (\<lambda>row attr. row(attr := features_get (pr_features pred) attr))
       (\<lambda>c. if c = ''prediction'' then pr_prediction pred
            else if c = ''true_label'' then pr_true_label pred
            else PNone)
       protected_attributes"

definition df_columns :: "string list \<Rightarrow> string list" where
  "df_columns protected_attributes =
     [''prediction'', ''true_label'', ''features''] @ protected_attributes"

text \<open>\<open>d[k] = v\<close> on a dictionary that keeps insertion order.\<close>

fun dict_set :: "(string \<times> rat) list \<Rightarrow> string \<Rightarrow> rat \<Rightarrow> (string \<times> rat) list" where
  "dict_set [] k v = [(k, v)]"
| "dict_set ((k', v') # d) k v = (if k' = k then (k, v) # d else (k', v') # dict_set d k v)"

text \<open>
  \<open>unique()\<close> keeps the first occurrence of each value. It hashes the cells, so a list
  or tuple in the column raises; only missing values, numbers and strings pass.
\<close>

definition unique :: "pyval list \<Rightarrow> pyval list" where
  "unique xs = rev (remdups (rev xs))"

fun is_scalar :: "pyval \<Rightarrow> bool" where
  "is_scalar (PList xs) = False"
| "is_scalar (PTuple xs) = False"
| "is_scalar v = True"

text \<open>\<open>(subset['prediction'] == 1).mean()\<close>\<close>

definition positive_rate :: "row list \<Rightarrow> rat" where
  "positive_rate sub =
     of_nat (length (filter (\<lambda>r. r ''prediction'' = PNum 1) sub)) / of_nat (length sub)"

definition dp_score :: "row list \<Rightarrow> rat" where
  "dp_score sub =
     (if list_ex (\<lambda>r. r ''prediction'' = PNum 1) sub then positive_rate sub else 0)"

text \<open>\<open>max(xs) - min(xs)\<close> and \<open>min(xs) / max(xs) if max(xs) > 0 else 0\<close>; both raise on \<open>[]\<close>.\<close>

definition spread :: "rat list \<Rightarrow> py_error + rat" where
  "spread xs = (case xs of [] \<Rightarrow> Inl ValueError | x # r \<Rightarrow> Inr (foldl max x r - foldl min x r))"

definition ratio :: "rat list \<Rightarrow> py_error + rat" where
  "ratio xs =
     (case xs of
        [] \<Rightarrow> Inl ValueError
      | x # r \<Rightarrow> Inr (if foldl max x r > 0 then foldl min x r / foldl max x r else 0))"

definition eo_scores_of :: "row list \<Rightarrow> string \<Rightarrow> pyval list \<Rightarrow> rat list" where
  "eo_scores_of df attr unique_values =
     concat (map (\<lambda>v. let sub = filter (\<lambda>r. r attr = v) df;
                          positive_subset = filter (\<lambda>r. r ''true_label'' = PNum 1) sub
                      in if length positive_subset > 0 then [positive_rate positive_subset] else [])
               unique_values)"

text \<open>The three entries an attribute with at least two observed values may get.\<close>

definition add_demographic_parity ::
  "fairness_results \<Rightarrow> string \<Rightarrow> rat list \<Rightarrow> py_error + fairness_results" where
  "add_demographic_parity results attr dp_scores =
     bind_sum (spread dp_scores)
       (\<lambda>dp_diff. Inr (results\<lparr>demographic_parity :=
                          dict_set (demographic_parity results) attr dp_diff\<rparr>))"

definition add_equal_opportunity ::
  "fairness_results \<Rightarrow> string \<Rightarrow> rat list \<Rightarrow> py_error + fairness_results" where
  "add_equal_opportunity results attr eo_scores =
     (if eo_scores \<noteq> []
      then bind_sum (spread eo_scores)
             (\<lambda>eo_diff. Inr (results\<lparr>equal_opportunity :=
                                dict_set (equal_opportunity results) attr eo_diff\<rparr>))
      else Inr results)"

definition add_disparate_impact ::
  "fairness_results \<Rightarrow> string \<Rightarrow> rat list \<Rightarrow> py_error + fairness_results" where
  "add_disparate_impact results attr dp_scores =
     (if length dp_scores \<ge> 2
      then bind_sum (ratio dp_scores)
             (\<lambda>dp_ratio. Inr (results\<lparr>disparate_impact :=
                                 dict_set (disparate_impact results) attr dp_ratio\<rparr>))
      else Inr results)"

text \<open>The body of the loop over the protected attributes.\<close>

definition fairness_attr ::
  "string list \<Rightarrow> row list \<Rightarrow> string \<Rightarrow> fairness_results \<Rightarrow> py_error + fairness_results" where
  "fairness_attr protected_attributes df attr results =
     (if attr \<notin> set (df_columns protected_attributes) then Inr results
      else if \<not> list_all is_scalar (map (\<lambda>r. r attr) df) then Inl TypeError
      else
        let unique_values = unique (filter (\<lambda>v. v \<noteq> PNone) (map (\<lambda>r. r attr) df))
        in if length unique_values < 2 then Inr results
           else
             let dp_scores = map (\<lambda>v. dp_score (filter (\<lambda>r. r attr = v) df)) unique_values;
                 eo_scores = eo_scores_of df attr unique_values
             in bind_sum (add_demographic_parity results attr dp_scores)
                  (\<lambda>results1. bind_sum (add_equal_opportunity results1 attr eo_scores)
                     (\<lambda>results2. add_disparate_impact results2 attr dp_scores)))"

fun fairness_attrs :: "string list \<Rightarrow> row list \<Rightarrow> string list \<Rightarrow> fairness_results \<Rightarrow> py_error + fairness_results" where
  "fairness_attrs pa df [] results = Inr results"
| "fairness_attrs pa df (attr # attrs) results =
     bind_sum (fairness_attr pa df attr results) (fairness_attrs pa df attrs)"

definition all_scores :: "fairness_results \<Rightarrow> rat list" where
  "all_scores results =
     map snd (demographic_parity results) @ map snd (equal_opportunity results) @
     map (\<lambda>(attr, score). 1 - score) (disparate_impact results)"

definition np_mean :: "rat list \<Rightarrow> rat" where
  "np_mean xs = sum_list xs / of_nat (length xs)"

definition calculate_fairness_metrics :: "prediction list \<Rightarrow> string list \<Rightarrow> py_error + fairness_results" where
  "calculate_fairness_metrics predictions protected_attributes =
     (let df = map (make_row protected_attributes) predictions
      in if df = [] then Inr initial_results
         else bind_sum
                (fairness_attrs protected_attributes df protected_attributes initial_results)
                (\<lambda>results.
                   if all_scores results \<noteq> []
                   then Inr (results\<lparr>overall_score := 1 - np_mean (all_scores results)\<rparr>)
                   else Inr results))"

text \<open>The values a protected attribute takes in the frame, and the frames the evaluator accepts.\<close>

definition observed_values :: "prediction list \<Rightarrow> string list \<Rightarrow> string \<Rightarrow> pyval list" where
  "observed_values predictions protected_attributes attr =
     unique (filter (\<lambda>v. v \<noteq> PNone)
       (map (\<lambda>r. r attr) (map (make_row protected_attributes) predictions)))"

definition scalar_attributes :: "prediction list \<Rightarrow> string list \<Rightarrow> bool" where
  "scalar_attributes predictions protected_attributes =
     list_all (\<lambda>attr. list_all is_scalar
                 (map (\<lambda>r. r attr) (map (make_row protected_attributes) predictions)))
       protected_attributes"

text \<open>Every entry of the three gap dictionaries is in [0, 1] and belongs to an attribute that \<open>P\<close> admits.\<close>

definition entries_ok :: "(string \<Rightarrow> bool) \<Rightarrow> (string \<times> rat) list \<Rightarrow> bool" where
  "entries_ok P d = list_all (\<lambda>(k, v). P k \<and> 0 \<le> v \<and> v \<le> 1) d"

definition results_ok :: "(string \<Rightarrow> bool) \<Rightarrow> fairness_results \<Rightarrow> bool" where
  "results_ok P results =
     (entries_ok P (demographic_parity results) \<and> entries_ok P (equal_opportunity results) \<and>
      entries_ok P (disparate_impact results))"

text \<open>Four predictions over two groups of \<open>gender\<close>, all of one \<open>region\<close>.\<close>

definition sample_prediction :: "rat \<Rightarrow> rat \<Rightarrow> string \<Rightarrow> prediction" where
  "sample_prediction p t g =
     \<lparr>pr_prediction = PNum p, pr_true_label = PNum t,
      pr_features = [(''gender'', PStr g), (''region'', PStr ''x'')]\<rparr>"

definition sample_predictions :: "prediction list" where
  "sample_predictions =
     [sample_prediction 1 1 ''a'', sample_prediction 0 0 ''a'',
      sample_prediction 1 1 ''b'', sample_prediction 1 0 ''b'']"

section \<open>The population stability index\<close>

text \<open>
  \<open>calculate_psi\<close> on numeric windows (the branch the quantile binning belongs to), in
  real arithmetic. The result \<open>None\<close> stands for NaN, which the division by the length
  of an empty current window produces. An empty reference window ends in the value 0:
  its percentiles raise or are NaN, and then the edges are too few or the histogram raises
  into \<open>except Exception: return 0\<close>.
\<close>

text \<open>\<open>np.linspace(0, 100, bins + 1)\<close>\<close>

definition linspace_0_100 :: "nat \<Rightarrow> real list" where
  "linspace_0_100 bins = map (\<lambda>i. 100 * real i / real bins) [0 ..< bins + 1]"

text \<open>\<open>np.percentile\<close> with linear interpolation, on a non-empty window and \<open>0 \<le> q \<le> 100\<close>.\<close>

definition percentile :: "real list \<Rightarrow> real \<Rightarrow> real" where
  "percentile values q =
     (let sorted = sort values;
          n = length values;
          virtual_index = q / 100 * real (n - 1);
          previous = nat \<lfloor>virtual_index\<rfloor>;
          following = min (previous + 1) (n - 1);
          gamma = virtual_index - real previous
      in sorted ! previous + gamma * (sorted ! following - sorted ! previous))"

text \<open>\<open>np.unique\<close>: the distinct values in increasing order.\<close>

definition np_unique :: "real list \<Rightarrow> real list" where
  "np_unique xs = remdups_adj (sort xs)"

definition bin_edges :: "real list \<Rightarrow> nat \<Rightarrow> real list" where
  "bin_edges ref_values bins = np_unique (map (percentile ref_values) (linspace_0_100 bins))"

text \<open>\<open>np.histogram\<close> with given edges: bins closed on the left, the last one on both sides.\<close>

fun histogram :: "real list \<Rightarrow> real list \<Rightarrow> nat list" where
  "histogram values [a, b] = [length (filter (\<lambda>x. a \<le> x \<and> x \<le> b) values)]"
| "histogram values (a # b # edges) =
     length (filter (\<lambda>x. a \<le> x \<and> x < b) values) # histogram values (b # edges)"
| "histogram values edges = []"

definition percentages :: "nat list \<Rightarrow> nat \<Rightarrow> real list" where
  "percentages hist n = map (\<lambda>c. real c / real n) hist"

text \<open>\<open>np.where(perc == 0, 0.0001, perc)\<close>\<close>

definition avoid_zero :: "real list \<Rightarrow> real list" where
  "avoid_zero perc = map (\<lambda>p. if p = 0 then 1 / 10000 else p) perc"

definition psi_sum :: "real list \<Rightarrow> real list \<Rightarrow> real" where
  "psi_sum curr_perc ref_perc =
     sum_list (map2 (\<lambda>c r. (c - r) * ln (c / r)) curr_perc ref_perc)"

definition calculate_psi :: "real list \<Rightarrow> real list \<Rightarrow> nat \<Rightarrow> real option" where
  "calculate_psi ref_values curr_values bins =
     (if ref_values = [] then Some 0
      else
        let edges = bin_edges ref_values bins
        in if length edges < 2 then Some 0
           else if curr_values = [] then None
           else
             let ref_hist = histogram ref_values edges;
                 curr_hist = histogram curr_values edges;
                 ref_perc = avoid_zero (percentages ref_hist (length ref_values));
                 curr_perc = avoid_zero (percentages curr_hist (length curr_values))
             in Some (psi_sum curr_perc ref_perc))"

chapter \<open>Verified properties\<close>

section \<open>The operator table\<close>

lemma py_in_set: "py_in v xs = (v \<in> set xs)"
  by (auto simp: py_in_def list_ex_iff)

lemma evaluate_condition_cmp:
  "evaluate_condition v ''>'' t = (py_richcmp Gt v t = Inr True)"
  "evaluate_condition v ''<'' t = (py_richcmp Lt v t = Inr True)"
  "evaluate_condition v ''>='' t = (py_richcmp Ge v t = Inr True)"
  "evaluate_condition v ''<='' t = (py_richcmp Le v t = Inr True)"
  "evaluate_condition v ''=='' t = (v = t)"
  "evaluate_condition v ''!='' t = (v \<noteq> t)"
  by (auto simp: evaluate_condition_def evaluate_condition_body_def split: sum.splits)

lemma evaluate_condition_member:
  "evaluate_condition v ''in'' t =
     (case t of PList xs \<Rightarrow> v \<in> set xs | PTuple xs \<Rightarrow> v \<in> set xs | _ \<Rightarrow> False)"
  "evaluate_condition v ''not_in'' t =
     (case t of PList xs \<Rightarrow> v \<notin> set xs | PTuple xs \<Rightarrow> v \<notin> set xs | _ \<Rightarrow> True)"
  by (auto simp: evaluate_condition_def evaluate_condition_body_def py_in_set
      split: sum.splits pyval.splits)

lemma evaluate_condition_unknown:
  "oper \<notin> {''>'', ''<'', ''>='', ''<='', ''=='', ''!='', ''in'', ''not_in''} \<Longrightarrow>
   \<not> evaluate_condition v oper t"
  by (simp add: evaluate_condition_def evaluate_condition_body_def)

text \<open>
  C6. \<open>evaluate_condition\<close> follows the operator table on every input: the six
  comparison operators give the corresponding Python comparison (on two numbers the
  numeric one), and a comparison that raises counts as false; \<open>in\<close> is membership
  when the threshold is a list or a tuple and false otherwise; \<open>not_in\<close> is
  non-membership when the threshold is a list or a tuple and true otherwise; any other
  operator gives false. The three sample evaluations of the specification hold.
\<close>

theorem evaluate_condition_table:
  "evaluate_condition v ''>'' t = (py_richcmp Gt v t = Inr True) \<and>
   evaluate_condition v ''<'' t = (py_richcmp Lt v t = Inr True) \<and>
   evaluate_condition v ''>='' t = (py_richcmp Ge v t = Inr True) \<and>
   evaluate_condition v ''<='' t = (py_richcmp Le v t = Inr True) \<and>
   evaluate_condition (PNum a) ''>'' (PNum b) = (a > b) \<and>
   evaluate_condition (PNum a) ''<'' (PNum b) = (a < b) \<and>
   evaluate_condition (PNum a) ''>='' (PNum b) = (a \<ge> b) \<and>
   evaluate_condition (PNum a) ''<='' (PNum b) = (a \<le> b) \<and>
   evaluate_condition v ''=='' t = (v = t) \<and>
   evaluate_condition v ''!='' t = (v \<noteq> t) \<and>
   evaluate_condition v ''in'' t =
     (case t of PList xs \<Rightarrow> v \<in> set xs | PTuple xs \<Rightarrow> v \<in> set xs | _ \<Rightarrow> False) \<and>
   evaluate_condition v ''not_in'' t =
     (case t of PList xs \<Rightarrow> v \<notin> set xs | PTuple xs \<Rightarrow> v \<notin> set xs | _ \<Rightarrow> True) \<and>
   (oper \<notin> {''>'', ''<'', ''>='', ''<='', ''=='', ''!='', ''in'', ''not_in''} \<longrightarrow>
      \<not> evaluate_condition v oper t) \<and>
   evaluate_condition (PNum (4 / 10)) ''<'' (PNum (5 / 10)) \<and>
   \<not> evaluate_condition (PNum 5) ''in'' (PList [PNum 1, PNum 2, PNum 3]) \<and>
   evaluate_condition (PStr ''x'') ''not_in'' (PList [])"
  using evaluate_condition_unknown [of oper v t]
  by (simp add: evaluate_condition_cmp evaluate_condition_member)

theorem evaluate_condition_table_witness:
  "''~'' \<notin> {''>'', ''<'', ''>='', ''<='', ''=='', ''!='', ''in'', ''not_in''} \<and>
   \<not> evaluate_condition (PNum 1) ''~'' (PNum 2) \<and>
   evaluate_condition (PNum 1) ''<'' (PNum 2) \<and>
   \<not> evaluate_condition (PStr ''a'') ''<'' (PNum 2) \<and>
   evaluate_condition (PNum 3) ''not_in'' (PNum 2)"
  using evaluate_condition_table [of "PNum 1" "PNum 2" 1 2 "''~''"]
    evaluate_condition_table [of "PStr ''a''" "PNum 2" 1 2 "''~''"]
    evaluate_condition_table [of "PNum 3" "PNum 2" 1 2 "''~''"]
  by simp

section \<open>The trust-score alert\<close>

lemma fresh_ids_not_stored:
  "fresh_ids s \<Longrightarrow> next_uuid s \<le> n \<Longrightarrow> n \<notin> a_id ` set (alerts s)"
  by (auto simp: fresh_ids_def list_all_iff)

lemma save_alert_new:
  "a_id a \<notin> a_id ` set (alerts s) \<Longrightarrow> save_alert a s = s\<lparr>alerts := alerts s @ [a]\<rparr>"
  by (simp add: save_alert_def)

text \<open>
  C10. For a stored TrustScore record handed to \<open>trigger_trust_score_alert\<close>: when
  \<open>alert_triggered\<close> is false nothing changes (no alert, no queued notification); when
  it is true exactly one alert is added, of type \<open>trust_score\<close>, with severity
  \<open>high\<close> when the score is strictly below 0.5 and \<open>medium\<close> otherwise (so never
  \<open>low\<close> or \<open>critical\<close>), with the score as metric value and the record's
  threshold as threshold, and its notification processing is queued.
\<close>

theorem trigger_trust_score_alert_creates:
  assumes "get_trust_score i s = Some t" and "fresh_ids s"
  shows "(\<not> ts_alert_triggered t \<longrightarrow> trigger_trust_score_alert fmt now i s = s) \<and>
         (ts_alert_triggered t \<longrightarrow>
            (\<exists>a. alerts (trigger_trust_score_alert fmt now i s) = alerts s @ [a] \<and>
                 queue (trigger_trust_score_alert fmt now i s) =
                   queue s @ [(0, ProcessAlertNotifications (a_id a))] \<and>
                 a_alert_type a = ''trust_score'' \<and>
                 a_severity a = (if ts_score t < 1 / 2 then ''high'' else ''medium'') \<and>
                 a_severity a \<noteq> ''low'' \<and> a_severity a \<noteq> ''critical'' \<and>
                 a_status a = ''active'' \<and>
                 a_metric_value a = PNum (ts_score t) \<and>
                 a_threshold a = PNum (ts_threshold t)))"
proof -
  have fresh: "Suc (next_uuid s) \<notin> a_id ` set (alerts s)"
    using assms(2) by (rule fresh_ids_not_stored) simp
  show ?thesis
    using assms(1) fresh
    by (simp add: trigger_trust_score_alert_def Let_def save_alert_def delay_def)
qed

theorem trigger_trust_score_alert_creates_witness:
  "get_trust_score 7 sys0 = Some ts0 \<and> fresh_ids sys0 \<and> ts_alert_triggered ts0 \<and>
   (\<exists>a. alerts (trigger_trust_score_alert (\<lambda>_ _. []) 5 7 sys0) = alerts sys0 @ [a] \<and>
        a_severity a = ''high'')"
proof -
  have g: "get_trust_score 7 sys0 = Some ts0"
    by (simp add: get_trust_score_def sys0_def ts0_def)
  have f: "fresh_ids sys0"
    by (simp add: fresh_ids_def sys0_def)
  have t: "ts_alert_triggered ts0" "ts_score ts0 < 1 / 2"
    by (simp_all add: ts0_def)
  from trigger_trust_score_alert_creates [OF g f, of "\<lambda>_ _. []" 5] t g f
  show ?thesis by auto
qed

section \<open>The rule engine: cooldown and last_triggered\<close>







section \<open>One active alert per tuple\<close>

text \<open>
  C2 on the trust-score path: handing the same triggered TrustScore record to
  \<open>trigger_trust_score_alert\<close> twice leaves two active alerts with the same
  (project, model, alert type, rule name) tuple.
\<close>

theorem trigger_trust_score_alert_twice:
  "active_alerts_of ''p'' (Some ''m'') ''trust_score'' None sys0 = [] \<and>
   length (active_alerts_of ''p'' (Some ''m'') ''trust_score'' None
     (trigger_trust_score_alert fmt0 6 7 (trigger_trust_score_alert fmt0 5 7 sys0))) = 2"
  by (simp add: active_alerts_of_def trigger_trust_score_alert_def get_trust_score_def sys0_def
      ts0_def Let_def save_alert_def delay_def)

section \<open>The trust score aggregator\<close>

lemma calculate_trust_score_body_raises:
  "calculate_trust_score_body now project_id model_id latest_fairness latest_drift
     latest_robustness latest_explainability s = Inl TypeError"
  by (simp add: calculate_trust_score_body_def project_configuration_objects_def bind_sum_def)

text \<open>
  The trend block by itself: the direction follows the percentage computed, and the
  percentage is the one double arithmetic gives. From 0.7 to 0.735 it is
  5.000000000000004, from 0.4 to 0.42 it is 4.99999999999999.
\<close>

lemma calculate_trend_direction:
  "fst (calculate_trend prev score) =
     (if \<bar>snd (calculate_trend prev score)\<bar> < 5 then ''stable''
      else if snd (calculate_trend prev score) > 0 then ''improving'' else ''declining'')"
proof (cases prev)
  case None
  then show ?thesis by (simp add: calculate_trend_def)
next
  case (Some x)
  define tp where "tp = (if x > 0 then f_mul (f_div (f_sub score x) x) 100 else 0)"
  have e: "calculate_trend prev score =
             (if \<bar>tp\<bar> < 5 then (''stable'', tp)
              else if tp > 0 then (''improving'', tp) else (''declining'', tp))"
    unfolding calculate_trend_def Some tp_def Let_def by (simp only: option.case)
  show ?thesis
    unfolding e by (simp only: fst_conv snd_conv if_distrib [of fst] if_distrib [of snd] if_cancel)
qed

lemma calculate_trend_doubles:
  "calculate_trend (Some (py_float (7 / 10))) (py_float (735 / 1000)) =
     (''improving'', 5629499534213125 / 1125899906842624)"
  "calculate_trend (Some (py_float (4 / 10))) (py_float (42 / 100)) =
     (''stable'', 5629499534213109 / 1125899906842624)"
  by code_simp+

text \<open>
  C4 on the code. Whatever the scope, the evaluations and the stored trust scores,
  \<open>calculate_trust_score\<close> leaves the state as it found it: the configuration lookup
  raises inside the \<open>try\<close>, before the trend is computed and before the new record is
  built, so no trust score and no trend percentage come out of any run.
\<close>

theorem calculate_trust_score_stores_nothing:
  "calculate_trust_score now project_id model_id latest_fairness latest_drift latest_robustness
     latest_explainability s = s"
  by (simp add: calculate_trust_score_def calculate_trust_score_body_raises)

text \<open>
  C7 on the code. With a trust score of 0.70 stored for the scope and evaluations that
  make the new score 0.80, the run ends with that one record as the only one, and nothing
  queued: no new trust score exists whose trend could be \<open>improving\<close>.
\<close>

theorem calculate_trust_score_classifies_nothing:
  "trust_scores
     (calculate_trust_score 30 ''p'' (Some ''m'') (Some (py_float (4 / 5)))
        (Some (py_float (1 / 5))) (Some (py_float (4 / 5))) (Some (py_float (4 / 5)))
        sys_one_score) =
     [earlier_score 1 (py_float (7 / 10)) 10] \<and>
   queue
     (calculate_trust_score 30 ''p'' (Some ''m'') (Some (py_float (4 / 5)))
        (Some (py_float (1 / 5))) (Some (py_float (4 / 5))) (Some (py_float (4 / 5)))
        sys_one_score) = []"
  by (simp add: calculate_trust_score_def calculate_trust_score_body_raises sys_one_score_def)

section \<open>The escalation sweep\<close>

lemma escalate_alert_effect:
  assumes "distinct (map a_id (alerts s))" and "x \<in> set (alerts s)"
  shows "alerts (escalate_alert x s) =
           map (\<lambda>y. if y = x \<and> a_severity x = ''high'' then escalated x else y) (alerts s)"
    and "queue (escalate_alert x s) =
           queue s @ (if a_severity x = ''high'' then [(0, ProcessAlertNotifications (a_id x))] else [])"
proof -
  have inj: "\<And>y. y \<in> set (alerts s) \<Longrightarrow> (a_id y = a_id x) = (y = x)"
    using assms by (meson distinct_map inj_onD)
  have st: "a_id (escalated x) \<in> set (map a_id (alerts s))"
    using assms(2) by (simp add: escalated_def)
  have "map (\<lambda>y. if a_id y = a_id (escalated x) then escalated x else y) (alerts s) =
        map (\<lambda>y. if y = x then escalated x else y) (alerts s)"
    by (rule map_cong) (auto simp: escalated_def inj)
  then show "alerts (escalate_alert x s) =
           map (\<lambda>y. if y = x \<and> a_severity x = ''high'' then escalated x else y) (alerts s)"
    using st by (simp add: escalate_alert_def save_alert_def delay_def)
  show "queue (escalate_alert x s) =
           queue s @ (if a_severity x = ''high'' then [(0, ProcessAlertNotifications (a_id x))] else [])"
    by (simp add: escalate_alert_def save_alert_def delay_def)
qed

lemma escalate_each_effect:
  assumes "distinct (map a_id (alerts s))" and "set xs \<subseteq> set (alerts s)" and "distinct xs"
  shows "alerts (escalate_each now xs s) =
           map (\<lambda>y. if y \<in> set xs \<and> esc_now now y then escalated y else y) (alerts s) \<and>
         queue (escalate_each now xs s) =
           queue s @ map (\<lambda>a. (0, ProcessAlertNotifications (a_id a))) (filter (esc_now now) xs)"
  using assms
proof (induction xs arbitrary: s)
  case Nil
  then show ?case by simp
next
  case (Cons x xs)
  let ?s1 = "if should_escalate_alert now x then escalate_alert x s else s"
  have xin: "x \<in> set (alerts s)" using Cons.prems(2) by simp
  have inj: "\<And>y z. y \<in> set (alerts s) \<Longrightarrow> z \<in> set (alerts s) \<Longrightarrow> a_id y = a_id z \<Longrightarrow> y = z"
    using Cons.prems(1) by (meson distinct_map inj_onD)
  have a1: "alerts ?s1 = map (\<lambda>y. if y = x \<and> esc_now now x then escalated x else y) (alerts s)"
    using escalate_alert_effect(1) [OF Cons.prems(1) xin] by (auto simp: esc_now_def)
  have q1: "queue ?s1 = queue s @ map (\<lambda>a. (0, ProcessAlertNotifications (a_id a))) (filter (esc_now now) [x])"
    using escalate_alert_effect(2) [OF Cons.prems(1) xin] by (auto simp: esc_now_def)
  have ids1: "map a_id (alerts ?s1) = map a_id (alerts s)"
    unfolding a1 by (induction "alerts s") (auto simp: escalated_def)
  have d1: "distinct (map a_id (alerts ?s1))" using Cons.prems(1) ids1 by simp
  have sub1: "set xs \<subseteq> set (alerts ?s1)"
  proof
    fix y assume y: "y \<in> set xs"
    then have "y \<in> set (alerts s)" "y \<noteq> x" using Cons.prems(2,3) by auto
    then show "y \<in> set (alerts ?s1)" unfolding a1 by force
  qed
  have dx: "distinct xs" using Cons.prems(3) by simp
  note ih = Cons.IH [OF d1 sub1 dx]
  have notin: "escalated x \<notin> set xs"
  proof
    assume "escalated x \<in> set xs"
    then have "escalated x \<in> set (alerts s)" "escalated x \<noteq> x" using Cons.prems(2,3) by auto
    moreover have "a_id (escalated x) = a_id x" by (simp add: escalated_def)
    ultimately show False using inj [OF _ xin] by blast
  qed
  have "map (\<lambda>y. if y \<in> set xs \<and> esc_now now y then escalated y else y) (alerts ?s1) =
        map (\<lambda>y. if y \<in> set (x # xs) \<and> esc_now now y then escalated y else y) (alerts s)"
    unfolding a1 map_map
    by (rule map_cong) (use notin Cons.prems(3) in auto)
  with ih q1 show ?case by simp
qed

lemma check_alert_escalations_effect:
  assumes "distinct (map a_id (alerts s))"
  shows "alerts (check_alert_escalations now s) =
           map (\<lambda>a. if sweep_escalates now a then escalated a else a) (alerts s) \<and>
         queue (check_alert_escalations now s) =
           queue s @ map (\<lambda>a. (0, ProcessAlertNotifications (a_id a)))
                       (filter (sweep_escalates now) (alerts s))"
proof -
  have d: "distinct (alerts s)" using assms by (simp add: distinct_map)
  have e: "\<And>a. (sweep_selects now a \<and> esc_now now a) = sweep_escalates now a"
    by (auto simp: esc_now_def sweep_escalates_def should_escalate_alert_def
        timedelta_hours_def timedelta_minutes_def)
  have "alerts (check_alert_escalations now s) =
          map (\<lambda>y. if y \<in> set (filter (sweep_selects now) (alerts s)) \<and> esc_now now y
                    then escalated y else y) (alerts s) \<and>
        queue (check_alert_escalations now s) =
          queue s @ map (\<lambda>a. (0, ProcessAlertNotifications (a_id a)))
                      (filter (esc_now now) (filter (sweep_selects now) (alerts s)))"
    unfolding check_alert_escalations_def
    by (rule escalate_each_effect [OF assms]) (use d in auto)
  moreover have "map (\<lambda>y. if y \<in> set (filter (sweep_selects now) (alerts s)) \<and> esc_now now y
                    then escalated y else y) (alerts s) =
                 map (\<lambda>a. if sweep_escalates now a then escalated a else a) (alerts s)"
    by (rule map_cong) (auto simp: e [symmetric])
  moreover have "filter (esc_now now) (filter (sweep_selects now) (alerts s)) =
                 filter (sweep_escalates now) (alerts s)"
    by (auto simp: e [symmetric] intro: filter_cong)
  ultimately show ?thesis by simp
qed

text \<open>
  C5. The sweep at \<open>now\<close> looks at the alerts that are active, not suppressed and
  created more than 30 minutes ago. Of these, a \<open>high\<close> alert created more than 60
  minutes ago gets severity \<open>critical\<close>, the title prefix \<open>[ESCALATED]\<close> and the
  note appended to its description, and its notification processing is queued again;
  every other alert is stored as it was. A selected \<open>critical\<close> alert is found due by
  \<open>should_escalate_alert\<close>, and \<open>escalate_alert\<close> leaves the whole state as it is.
\<close>

theorem check_alert_escalations_high_only:
  assumes "distinct (map a_id (alerts s))"
  shows "alerts (check_alert_escalations now s) =
           map (\<lambda>a. if sweep_selects now a \<and> a_severity a = ''high'' \<and>
                        now > a_created_at a + timedelta_minutes 60
                     then a\<lparr>a_severity := ''critical'',
                            a_title := ''[ESCALATED] '' @ a_title a,
                            a_description := a_description a @ escalation_note\<rparr>
                     else a) (alerts s) \<and>
         queue (check_alert_escalations now s) =
           queue s @ map (\<lambda>a. (0, ProcessAlertNotifications (a_id a)))
                       (filter (\<lambda>a. sweep_selects now a \<and> a_severity a = ''high'' \<and>
                                    now > a_created_at a + timedelta_minutes 60) (alerts s)) \<and>
         (sweep_selects now c \<and> a_severity c = ''critical'' \<longrightarrow>
            should_escalate_alert now c \<and> escalate_alert c s = s)"
proof -
  have "sweep_selects now c \<and> a_severity c = ''critical'' \<longrightarrow>
            should_escalate_alert now c \<and> escalate_alert c s = s"
    by (auto simp: sweep_selects_def should_escalate_alert_def escalate_alert_def)
  then show ?thesis
    using check_alert_escalations_effect [OF assms, of now]
    by (simp add: sweep_escalates_def [abs_def] escalated_def [abs_def])
qed

theorem check_alert_escalations_high_only_witness:
  "distinct (map a_id (alerts sys_stale)) \<and>
   sweep_selects (timedelta_minutes 61) (old_alert 2 ''critical'' (timedelta_minutes 30)) \<and>
   should_escalate_alert (timedelta_minutes 61) (old_alert 2 ''critical'' (timedelta_minutes 30)) \<and>
   alerts (check_alert_escalations (timedelta_minutes 61) sys_stale) =
     [(old_alert 1 ''high'' 0)\<lparr>a_severity := ''critical'',
         a_title := ''[ESCALATED] Drift Alert: r'',
         a_description := ''drift_score is high'' @ escalation_note\<rparr>,
      old_alert 2 ''critical'' (timedelta_minutes 30)] \<and>
   queue (check_alert_escalations (timedelta_minutes 61) sys_stale) =
     [(0, ProcessAlertNotifications 1)]"
proof -
  have d: "distinct (map a_id (alerts sys_stale))"
    by (simp add: sys_stale_def old_alert_def)
  have s: "sweep_selects (timedelta_minutes 61) (old_alert 1 ''high'' 0)"
    "sweep_selects (timedelta_minutes 61) (old_alert 2 ''critical'' (timedelta_minutes 30))"
    by (simp_all add: sweep_selects_def old_alert_def timedelta_minutes_def)
  from check_alert_escalations_high_only [OF d, of "timedelta_minutes 61"
      "old_alert 2 ''critical'' (timedelta_minutes 30)"] d s
  show ?thesis
    by (simp add: sys_stale_def) (simp add: old_alert_def timedelta_minutes_def)
qed

section \<open>Notification retries\<close>

lemma map_replace_absent:
  "i \<notin> n_id ` set xs \<Longrightarrow> map (\<lambda>x. if n_id x = i then n else x) xs = xs"
  by (induction xs) auto

lemma dead_attempt:
  assumes "find (\<lambda>a. a_id a = 3) (alerts s) \<noteq> None"
    and "next_uuid s \<notin> set (map n_id (notifications s))"
  shows "send_alert_notification deliver now 3 dead_channel s =
     Inr (s\<lparr>next_uuid := next_uuid s + 1,
            queue := queue s @ [(120, SendAlertNotification 3 dead_channel)],
            notifications := notifications s @
              [\<lparr>n_id = next_uuid s, n_alert_id = 3, n_channel_type = Some ''email'',
                n_recipient = [], n_status = ''retry'', n_sent_at = None,
                n_error_message = Some ''Failed to send notification'',
                n_retry_count = 1, n_max_retries = 3\<rparr>]\<rparr>)"
  using assms
  by (auto simp: send_alert_notification_def dead_channel_def notification_channel_types_def
      Let_def send_email_notification_def save_notification_def apply_async_def
      map_replace_absent)

lemma dead_run_head:
  assumes "alerts s = alerts sys_notify"
    and "queue s = [(c, SendAlertNotification 3 dead_channel)]"
    and "notifications s = map retry_record [100 ..< next_uuid s]"
  shows "\<exists>s'. run_head deliver now s = Inr s' \<and> alerts s' = alerts sys_notify \<and>
          queue s' = [(120, SendAlertNotification 3 dead_channel)] \<and>
          next_uuid s' = Suc (next_uuid s) \<and>
          notifications s' = notifications s @ [retry_record (next_uuid s)]"
proof -
  let ?s0 = "s\<lparr>queue := []\<rparr>"
  have f: "find (\<lambda>a. a_id a = 3) (alerts ?s0) \<noteq> None"
    using assms(1) by (simp add: sys_notify_def)
  have n: "next_uuid ?s0 \<notin> set (map n_id (notifications ?s0))"
    using assms(3) by (auto simp: retry_record_def)
  show ?thesis
    using dead_attempt [OF f n, of deliver now] assms(1,2)
    by (simp add: run_head_def retry_record_def)
qed

lemma dead_redeliveries:
  assumes "alerts s = alerts sys_notify"
    and "queue s = [(c, SendAlertNotification 3 dead_channel)]"
    and "notifications s = map retry_record [100 ..< next_uuid s]"
    and "100 \<le> next_uuid s"
  shows "\<exists>s'. redeliveries deliver now k s = Inr s' \<and> alerts s' = alerts sys_notify \<and>
          (k > 0 \<longrightarrow> queue s' = [(120, SendAlertNotification 3 dead_channel)]) \<and>
          next_uuid s' = next_uuid s + k \<and>
          notifications s' = map retry_record [100 ..< next_uuid s + k]"
  using assms
proof (induction k arbitrary: s c)
  case 0
  then show ?case by simp
next
  case (Suc k)
  from dead_run_head [OF Suc.prems(1,2,3), of deliver now]
  obtain s1 where s1: "run_head deliver now s = Inr s1" "alerts s1 = alerts sys_notify"
    "queue s1 = [(120, SendAlertNotification 3 dead_channel)]"
    "next_uuid s1 = Suc (next_uuid s)"
    "notifications s1 = notifications s @ [retry_record (next_uuid s)]"
    by blast
  have n1: "notifications s1 = map retry_record [100 ..< next_uuid s1]"
    using s1(4,5) Suc.prems(3,4) by simp
  have l1: "100 \<le> next_uuid s1" using s1(4) Suc.prems(4) by simp
  from Suc.IH [OF s1(2) s1(3) n1 l1]
  obtain s' where s': "redeliveries deliver now k s1 = Inr s'" "alerts s' = alerts sys_notify"
    "k > 0 \<longrightarrow> queue s' = [(120, SendAlertNotification 3 dead_channel)]"
    "next_uuid s' = next_uuid s1 + k"
    "notifications s' = map retry_record [100 ..< next_uuid s1 + k]"
    by blast
  have q: "queue s' = [(120, SendAlertNotification 3 dead_channel)]"
  proof (cases k)
    case 0
    then show ?thesis using s'(1) s1(3) by simp
  next
    case (Suc j)
    then show ?thesis using s'(3) by simp
  qed
  show ?case
    using s1(1,4) s' q by simp
qed

text \<open>
  C3 on the code. Every run of \<open>send_alert_notification\<close> creates a new notification
  record, with retry count 0, so the test \<open>retry_count < max_retries\<close> never fails: for
  a channel whose delivery always fails, after any number \<open>k + 1\<close> of failed attempts
  (3 and more included) each record stands at status \<open>retry\<close> with retry count 1, none
  is \<open>failed\<close>, and a further attempt is scheduled, 120 seconds ahead.
\<close>

theorem send_alert_notification_retries_forever:
  "\<exists>s'. redeliveries deliver now (Suc k) sys_notify = Inr s' \<and>
     queue s' = [(120, SendAlertNotification 3 dead_channel)] \<and>
     length (notifications s') = Suc k \<and>
     list_all (\<lambda>n. n_status n = ''retry'' \<and> n_retry_count n = 1 \<and> n_max_retries n = 3)
       (notifications s')"
proof -
  have a: "alerts sys_notify = alerts sys_notify" by simp
  have q: "queue sys_notify = [(0, SendAlertNotification 3 dead_channel)]"
    by (simp add: sys_notify_def)
  have n: "notifications sys_notify = map retry_record [100 ..< next_uuid sys_notify]"
    by (simp add: sys_notify_def)
  have l: "100 \<le> next_uuid sys_notify" by (simp add: sys_notify_def)
  from dead_redeliveries [OF a q n l, of deliver now "Suc k"]
  obtain s' where s': "redeliveries deliver now (Suc k) sys_notify = Inr s'"
    "queue s' = [(120, SendAlertNotification 3 dead_channel)]"
    "notifications s' = map retry_record [100 ..< next_uuid sys_notify + Suc k]"
    by auto
  have "length (notifications s') = Suc k"
    using s'(3) by (simp add: sys_notify_def)
  moreover have "list_all (\<lambda>n. n_status n = ''retry'' \<and> n_retry_count n = 1 \<and> n_max_retries n = 3)
       (notifications s')"
    unfolding s'(3) by (simp add: list_all_iff retry_record_def)
  ultimately show ?thesis using s'(1,2) by blast
qed

section \<open>The fairness score\<close>

lemma entries_ok_dict_set:
  "entries_ok P d \<Longrightarrow> P k \<Longrightarrow> 0 \<le> v \<Longrightarrow> v \<le> 1 \<Longrightarrow> entries_ok P (dict_set d k v)"
  by (induction d k v rule: dict_set.induct) (auto simp: entries_ok_def)

lemma positive_rate_range: "0 \<le> positive_rate xs \<and> positive_rate xs \<le> 1"
proof -
  have "length (filter (\<lambda>r. r ''prediction'' = PNum 1) xs) \<le> length xs" by simp
  then have "(of_nat (length (filter (\<lambda>r. r ''prediction'' = PNum 1) xs)) :: rat) \<le> of_nat (length xs)"
    by (simp only: of_nat_le_iff)
  then show ?thesis
    unfolding positive_rate_def
    by (cases "xs = []") (simp_all add: divide_le_eq_1)
qed

lemma dp_score_range: "0 \<le> dp_score xs \<and> dp_score xs \<le> 1"
  using positive_rate_range [of xs] by (simp add: dp_score_def)

lemma foldl_min_ge: "l \<le> x \<Longrightarrow> \<forall>y \<in> set r. l \<le> y \<Longrightarrow> (l :: rat) \<le> foldl min x r"
  by (induction r arbitrary: x) auto

lemma foldl_max_le: "x \<le> u \<Longrightarrow> \<forall>y \<in> set r. y \<le> u \<Longrightarrow> foldl max x r \<le> (u :: rat)"
  by (induction r arbitrary: x) auto

lemma foldl_min_le_max: "(a :: rat) \<le> b \<Longrightarrow> foldl min a r \<le> foldl max b r"
proof (induction r arbitrary: a b)
  case Nil
  then show ?case by simp
next
  case (Cons y r)
  have "min a y \<le> max b y" using Cons.prems by (simp add: min_def max_def)
  then show ?case using Cons.IH by simp
qed

lemma spread_range:
  assumes "xs \<noteq> []" and "\<forall>y \<in> set xs. 0 \<le> y \<and> y \<le> (1 :: rat)"
  shows "\<exists>d. spread xs = Inr d \<and> 0 \<le> d \<and> d \<le> 1"
proof -
  from assms(1) obtain x r where xs: "xs = x # r" by (cases xs) auto
  have a: "0 \<le> foldl min x r" using assms(2) xs by (intro foldl_min_ge) auto
  have b: "foldl max x r \<le> 1" using assms(2) xs by (intro foldl_max_le) auto
  have c: "foldl min x r \<le> foldl max x r" by (rule foldl_min_le_max) simp
  show ?thesis using a b c by (simp add: spread_def xs)
qed

lemma ratio_range:
  assumes "xs \<noteq> []" and "\<forall>y \<in> set xs. 0 \<le> y \<and> y \<le> (1 :: rat)"
  shows "\<exists>d. ratio xs = Inr d \<and> 0 \<le> d \<and> d \<le> 1"
proof -
  from assms(1) obtain x r where xs: "xs = x # r" by (cases xs) auto
  have a: "0 \<le> foldl min x r" using assms(2) xs by (intro foldl_min_ge) auto
  have c: "foldl min x r \<le> foldl max x r" by (rule foldl_min_le_max) simp
  show ?thesis using a c by (simp add: ratio_def xs divide_le_eq_1)
qed

lemma eo_scores_of_range: "\<forall>y \<in> set (eo_scores_of df attr vs). 0 \<le> y \<and> y \<le> 1"
  using positive_rate_range by (auto simp: eo_scores_of_def Let_def)

lemma fairness_attr_ok:
  assumes "results_ok P results"
    and "list_all is_scalar (map (\<lambda>r. r attr) df)"
    and "2 \<le> length (unique (filter (\<lambda>v. v \<noteq> PNone) (map (\<lambda>r. r attr) df))) \<Longrightarrow> P attr"
  shows "\<exists>results'. fairness_attr pa df attr results = Inr results' \<and> results_ok P results' \<and>
           overall_score results' = overall_score results"
proof (cases "attr \<in> set (df_columns pa) \<and>
              2 \<le> length (unique (filter (\<lambda>v. v \<noteq> PNone) (map (\<lambda>r. r attr) df)))")
  case False
  then show ?thesis using assms(1,2) by (auto simp: fairness_attr_def Let_def)
next
  case True
  define uv where "uv = unique (filter (\<lambda>v. v \<noteq> PNone) (map (\<lambda>r. r attr) df))"
  define dps where "dps = map (\<lambda>v. dp_score (filter (\<lambda>r. r attr = v) df)) uv"
  define eos where "eos = eo_scores_of df attr uv"
  have len: "2 \<le> length uv" using True by (simp add: uv_def)
  have P: "P attr" using assms(3) True by simp
  have dne: "dps \<noteq> []" using len by (auto simp: dps_def)
  have dr: "\<forall>y \<in> set dps. 0 \<le> y \<and> y \<le> 1" using dp_score_range by (auto simp: dps_def)
  have er: "\<forall>y \<in> set eos. 0 \<le> y \<and> y \<le> 1" unfolding eos_def by (rule eo_scores_of_range)
  from spread_range [OF dne dr] obtain d1 where d1: "spread dps = Inr d1" "0 \<le> d1" "d1 \<le> 1"
    by blast
  from ratio_range [OF dne dr] obtain d3 where d3: "ratio dps = Inr d3" "0 \<le> d3" "d3 \<le> 1"
    by blast
  define r1 where "r1 = results\<lparr>demographic_parity := dict_set (demographic_parity results) attr d1\<rparr>"
  have s1: "add_demographic_parity results attr dps = Inr r1"
    by (simp add: add_demographic_parity_def bind_sum_def d1 r1_def)
  have ok1: "results_ok P r1" "overall_score r1 = overall_score results"
    using assms(1) P d1 by (auto simp: results_ok_def r1_def intro: entries_ok_dict_set)
  have "\<exists>r2. add_equal_opportunity r1 attr eos = Inr r2 \<and> results_ok P r2 \<and>
          overall_score r2 = overall_score results"
  proof (cases "eos = []")
    case True
    then show ?thesis using ok1 by (simp add: add_equal_opportunity_def)
  next
    case False
    from spread_range [OF False er] obtain d2 where "spread eos = Inr d2" "0 \<le> d2" "d2 \<le> 1"
      by blast
    then show ?thesis
      using False ok1 P
      by (auto simp: add_equal_opportunity_def bind_sum_def results_ok_def
          intro: entries_ok_dict_set)
  qed
  then obtain r2 where r2: "add_equal_opportunity r1 attr eos = Inr r2" "results_ok P r2"
    "overall_score r2 = overall_score results" by blast
  have "\<exists>r3. add_disparate_impact r2 attr dps = Inr r3 \<and> results_ok P r3 \<and>
          overall_score r3 = overall_score results"
    using r2 d3 P
    by (auto simp: add_disparate_impact_def bind_sum_def results_ok_def
        intro: entries_ok_dict_set)
  then obtain r3 where r3: "add_disparate_impact r2 attr dps = Inr r3" "results_ok P r3"
    "overall_score r3 = overall_score results" by blast
  have "fairness_attr pa df attr results = Inr r3"
    using True assms(2) len s1 r2(1) r3(1)
    by (simp add: fairness_attr_def Let_def bind_sum_def uv_def [symmetric] dps_def [symmetric]
        eos_def [symmetric])
  then show ?thesis using r3 by blast
qed

lemma fairness_attrs_ok:
  assumes "results_ok P results"
    and "\<forall>attr \<in> set attrs. list_all is_scalar (map (\<lambda>r. r attr) df)"
    and "\<And>attr. 2 \<le> length (unique (filter (\<lambda>v. v \<noteq> PNone) (map (\<lambda>r. r attr) df))) \<Longrightarrow> P attr"
  shows "\<exists>results'. fairness_attrs pa df attrs results = Inr results' \<and> results_ok P results' \<and>
           overall_score results' = overall_score results"
  using assms(1,2)
proof (induction attrs arbitrary: results)
  case Nil
  then show ?case by simp
next
  case (Cons attr attrs)
  have sc: "list_all is_scalar (map (\<lambda>r. r attr) df)" using Cons.prems(2) by simp
  from fairness_attr_ok [OF Cons.prems(1) sc assms(3), of pa]
  obtain r1 where r1: "fairness_attr pa df attr results = Inr r1" "results_ok P r1"
    "overall_score r1 = overall_score results" by blast
  have rest: "\<forall>attr \<in> set attrs. list_all is_scalar (map (\<lambda>r. r attr) df)"
    using Cons.prems(2) by simp
  from Cons.IH [OF r1(2) rest] r1 show ?case by (simp add: bind_sum_def)
qed

lemma sum_list_bounds:
  "\<forall>y \<in> set xs. 0 \<le> y \<and> y \<le> (1 :: rat) \<Longrightarrow> 0 \<le> sum_list xs \<and> sum_list xs \<le> of_nat (length xs)"
  by (induction xs) auto

lemma np_mean_range:
  assumes "xs \<noteq> []" and "\<forall>y \<in> set xs. 0 \<le> y \<and> y \<le> (1 :: rat)"
  shows "0 \<le> np_mean xs \<and> np_mean xs \<le> 1"
proof -
  have "0 < (of_nat (length xs) :: rat)" using assms(1) by simp
  then show ?thesis
    using sum_list_bounds [OF assms(2)] by (simp add: np_mean_def divide_le_eq_1)
qed

lemma all_scores_range:
  assumes "results_ok P results"
  shows "\<forall>y \<in> set (all_scores results). 0 \<le> y \<and> y \<le> 1"
  using assms
  by (fastforce simp: all_scores_def results_ok_def entries_ok_def list_all_iff)

lemma results_ok_keys:
  assumes "results_ok P results" and "\<not> P attr"
  shows "attr \<notin> fst ` set (demographic_parity results) \<and>
         attr \<notin> fst ` set (equal_opportunity results) \<and>
         attr \<notin> fst ` set (disparate_impact results)"
  using assms by (fastforce simp: results_ok_def entries_ok_def list_all_iff)

text \<open>
  C9. On every list of predictions and every list of protected attributes whose cells
  are missing values, numbers or strings, \<open>calculate_fairness_metrics\<close> returns
  results whose overall score lies in [0, 1]. The score is 1 minus the mean of all the
  gaps computed (the demographic parity and equal opportunity differences, and 1 minus
  each disparate impact ratio), and 0.5 when there is none. An attribute with fewer than
  two distinct observed values has no entry in any of the three gap dictionaries.
\<close>

theorem calculate_fairness_metrics_range:
  assumes "scalar_attributes predictions protected_attributes"
  shows "\<exists>results. calculate_fairness_metrics predictions protected_attributes = Inr results \<and>
           0 \<le> overall_score results \<and> overall_score results \<le> 1 \<and>
           overall_score results =
             (if all_scores results = [] then 1 / 2 else 1 - np_mean (all_scores results)) \<and>
           (\<forall>attr. length (observed_values predictions protected_attributes attr) < 2 \<longrightarrow>
              attr \<notin> fst ` set (demographic_parity results) \<and>
              attr \<notin> fst ` set (equal_opportunity results) \<and>
              attr \<notin> fst ` set (disparate_impact results))"
proof -
  define df where "df = map (make_row protected_attributes) predictions"
  define P where "P = (\<lambda>attr. 2 \<le> length (observed_values predictions protected_attributes attr))"
  have keys0: "\<And>attr. length (observed_values predictions protected_attributes attr) < 2 \<Longrightarrow> \<not> P attr"
    by (simp add: P_def)
  show ?thesis
  proof (cases "df = []")
    case True
    then show ?thesis
      by (simp add: calculate_fairness_metrics_def df_def [symmetric] initial_results_def
          all_scores_def)
  next
    case False
    have ok0: "results_ok P initial_results"
      by (simp add: results_ok_def entries_ok_def initial_results_def)
    have sc: "\<forall>attr \<in> set protected_attributes. list_all is_scalar (map (\<lambda>r. r attr) df)"
      using assms by (simp add: scalar_attributes_def df_def list_all_iff)
    have p: "\<And>attr. 2 \<le> length (unique (filter (\<lambda>v. v \<noteq> PNone) (map (\<lambda>r. r attr) df))) \<Longrightarrow> P attr"
      by (simp add: P_def observed_values_def df_def)
    from fairness_attrs_ok [OF ok0 sc p, of protected_attributes]
    obtain r where r: "fairness_attrs protected_attributes df protected_attributes initial_results = Inr r"
      "results_ok P r" "overall_score r = overall_score initial_results" by blast
    have half: "overall_score r = 1 / 2" using r(3) by (simp add: initial_results_def)
    have keys: "\<And>attr res. \<not> P attr \<Longrightarrow>
        attr \<notin> fst ` set (demographic_parity r) \<and> attr \<notin> fst ` set (equal_opportunity r) \<and>
        attr \<notin> fst ` set (disparate_impact r)"
      using results_ok_keys [OF r(2)] by blast
    show ?thesis
    proof (cases "all_scores r = []")
      case True
      then have "calculate_fairness_metrics predictions protected_attributes = Inr r"
        using False r(1)
        by (simp add: calculate_fairness_metrics_def df_def [symmetric] bind_sum_def)
      then show ?thesis using True half keys keys0 by simp
    next
      case ne: False
      let ?r = "r\<lparr>overall_score := 1 - np_mean (all_scores r)\<rparr>"
      have c: "calculate_fairness_metrics predictions protected_attributes = Inr ?r"
        using False ne r(1)
        by (simp add: calculate_fairness_metrics_def df_def [symmetric] bind_sum_def)
      have a: "all_scores ?r = all_scores r" by (simp add: all_scores_def)
      have m: "0 \<le> np_mean (all_scores r) \<and> np_mean (all_scores r) \<le> 1"
        by (rule np_mean_range [OF ne all_scores_range [OF r(2)]])
      show ?thesis
        unfolding c using a ne m keys keys0 by simp
    qed
  qed
qed

lemma sample_rows:
  "map (make_row [''gender'', ''region'']) sample_predictions =
     [(\<lambda>c. PNone)(''prediction'' := PNum 1, ''true_label'' := PNum 1, ''gender'' := PStr ''a'', ''region'' := PStr ''x''),
      (\<lambda>c. PNone)(''prediction'' := PNum 0, ''true_label'' := PNum 0, ''gender'' := PStr ''a'', ''region'' := PStr ''x''),
      (\<lambda>c. PNone)(''prediction'' := PNum 1, ''true_label'' := PNum 1, ''gender'' := PStr ''b'', ''region'' := PStr ''x''),
      (\<lambda>c. PNone)(''prediction'' := PNum 1, ''true_label'' := PNum 0, ''gender'' := PStr ''b'', ''region'' := PStr ''x'')]"
  by (auto simp: sample_predictions_def sample_prediction_def make_row_def features_get_def fun_eq_iff)

lemma sample_fairness:
  "calculate_fairness_metrics sample_predictions [''gender'', ''region''] =
     Inr \<lparr>demographic_parity = [(''gender'', 1 / 2)], equal_opportunity = [(''gender'', 0)],
          disparate_impact = [(''gender'', 1 / 2)], equalized_odds = [],
          overall_score = 2 / 3\<rparr>"
  by (simp add: calculate_fairness_metrics_def sample_rows fairness_attr_def df_columns_def
      unique_def Let_def dp_score_def positive_rate_def eo_scores_of_def
      add_demographic_parity_def add_equal_opportunity_def add_disparate_impact_def
      spread_def ratio_def bind_sum_def initial_results_def all_scores_def np_mean_def)

theorem calculate_fairness_metrics_range_witness:
  "scalar_attributes sample_predictions [''gender'', ''region''] \<and>
   length (observed_values sample_predictions [''gender'', ''region''] ''region'') < 2 \<and>
   (\<exists>results. calculate_fairness_metrics sample_predictions [''gender'', ''region''] = Inr results \<and>
      overall_score results = 2 / 3 \<and> 0 \<le> overall_score results \<and> overall_score results \<le> 1 \<and>
      ''region'' \<notin> fst ` set (demographic_parity results))"
proof -
  have h: "scalar_attributes sample_predictions [''gender'', ''region'']"
    by (simp add: scalar_attributes_def sample_rows)
  have o: "length (observed_values sample_predictions [''gender'', ''region''] ''region'') < 2"
    by (simp add: observed_values_def sample_rows unique_def)
  from calculate_fairness_metrics_range [OF h] sample_fairness h o
  show ?thesis by auto
qed

section \<open>PSI of a window against itself\<close>

lemma psi_sum_same: "psi_sum p p = 0"
proof -
  have "map2 (\<lambda>c r. (c - r) * ln (c / r)) p p = map (\<lambda>x. 0) p"
    by (induction p) auto
  then show ?thesis by (simp add: psi_sum_def)
qed

text \<open>
  C8. When the quantile binning of the reference window yields at least two distinct
  edges, \<open>calculate_psi\<close> of the window against itself is exactly 0: both windows fall
  into the same bins with the same percentages, and every term
  \<open>(cur - ref) * ln (cur / ref)\<close> vanishes.
\<close>

theorem calculate_psi_identical:
  assumes "2 \<le> length (bin_edges ref_values bins)"
  shows "calculate_psi ref_values ref_values bins = Some 0"
  using assms by (simp add: calculate_psi_def Let_def psi_sum_same)

lemma sample_edges:
  "bin_edges [1, 2, 3, 4, 5, 6, 7, 8, 9, 10, 11] 10 = [1, 2, 3, 4, 5, 6, 7, 8, 9, 10, 11]"
  by (simp add: bin_edges_def linspace_0_100_def percentile_def np_unique_def Let_def
      upt_rec [of _ 11] upt_rec [of _ "Suc _"] eval_nat_numeral)

lemma sample_histogram:
  "histogram [1, 2, 3, 4, 5, 6, 7, 8, 9, 10, 11] [1, 2, 3, 4, 5, 6, 7, 8, 9, 10, 11] =
     [1, 1, 1, 1, 1, 1, 1, 1, 1, 2]"
  by simp

theorem calculate_psi_identical_witness:
  "2 \<le> length (bin_edges [1, 2, 3, 4, 5, 6, 7, 8, 9, 10, 11] 10) \<and>
   histogram [1, 2, 3, 4, 5, 6, 7, 8, 9, 10, 11] (bin_edges [1, 2, 3, 4, 5, 6, 7, 8, 9, 10, 11] 10) =
     [1, 1, 1, 1, 1, 1, 1, 1, 1, 2] \<and>
   calculate_psi [1, 2, 3, 4, 5, 6, 7, 8, 9, 10, 11] [1, 2, 3, 4, 5, 6, 7, 8, 9, 10, 11] 10 = Some 0"
proof -
  have h: "2 \<le> length (bin_edges [1, 2, 3, 4, 5, 6, 7, 8, 9, 10, 11] 10)"
    by (simp add: sample_edges)
  from calculate_psi_identical [OF h] h sample_histogram
  show ?thesis by (simp add: sample_edges)
qed

end
